theory Spec2Isabelle
  imports Main "HOL-Library.Word" "HOL-Library.Multiset"
begin

section \<open>Values shared by the store, the listener and the scheduler\<close>

text \<open>
  Python \<open>bytes\<close> are lists of 8-bit words. A Python \<open>str\<close> holding decoded payload text is
  the list of its code points; addresses are ASCII text. Python integers are unbounded.
\<close>

type_synonym byte = "8 word"
type_synonym bytes = "byte list"
type_synonym pystr = "nat list"
type_synonym addr = "string \<times> int"

text \<open>
  The exception classes that the handlers of the program tell apart. \<open>socket.error\<close> is
  \<open>OSError\<close>; the errors of \<open>sqlite3\<close>, \<open>OverflowError\<close> and \<open>UnicodeDecodeError\<close> are
  ordinary \<open>Exception\<close>s outside that class.
\<close>

datatype pyexc = SocketError | SqliteError | OverflowError | UnicodeDecodeError

fun is_socket_error :: "pyexc \<Rightarrow> bool" where
  "is_socket_error SocketError = True"
| "is_socket_error _ = False"

subsection \<open>\<open>bytes.decode('utf-8')\<close> and \<open>bytes.hex()\<close>\<close>

text \<open>
  The strict UTF-8 codec of the Python runtime, read one byte at a time. \<open>n\<close> counts the
  continuation bytes still owed to the current character, \<open>acc\<close> holds the bits gathered
  so far, and \<open>lo\<close>, \<open>hi\<close> bound the next continuation byte (the bounds are narrower right
  after the lead bytes E0, ED, F0 and F4, which rules out overlong forms, surrogates and
  code points above U+10FFFF).
\<close>

fun utf8_go :: "nat \<Rightarrow> nat \<Rightarrow> byte \<Rightarrow> byte \<Rightarrow> bytes \<Rightarrow> pystr option" where
  "utf8_go n acc lo hi [] = (if n = 0 then Some [] else None)"
| "utf8_go n acc lo hi (b # bs) =
     (if n = 0 then
        (if b < 0x80 then map_option ((#) (unat b)) (utf8_go 0 0 0x80 0xBF bs)
         else if 0xC2 \<le> b \<and> b \<le> 0xDF then utf8_go 1 (unat b - 0xC0) 0x80 0xBF bs
         else if b = 0xE0 then utf8_go 2 0 0xA0 0xBF bs
         else if b = 0xED then utf8_go 2 0xD 0x80 0x9F bs
         else if 0xE1 \<le> b \<and> b \<le> 0xEF then utf8_go 2 (unat b - 0xE0) 0x80 0xBF bs
         else if b = 0xF0 then utf8_go 3 0 0x90 0xBF bs
         else if b = 0xF4 then utf8_go 3 4 0x80 0x8F bs
         else if 0xF1 \<le> b \<and> b \<le> 0xF3 then utf8_go 3 (unat b - 0xF0) 0x80 0xBF bs
         else None)
      else if lo \<le> b \<and> b \<le> hi then
        (if n = 1 then map_option ((#) (acc * 64 + (unat b - 0x80))) (utf8_go 0 0 0x80 0xBF bs)
         else utf8_go (n - 1) (acc * 64 + (unat b - 0x80)) 0x80 0xBF bs)
      else None)"

definition utf8_decode :: "bytes \<Rightarrow> pyexc + pystr" where
  "utf8_decode d = (case utf8_go 0 0 0x80 0xBF d of None \<Rightarrow> Inl UnicodeDecodeError | Some s \<Rightarrow> Inr s)"

definition hexdigit :: "nat \<Rightarrow> nat" where
  "hexdigit n = (if n < 10 then 48 + n else 87 + n)"

definition hex :: "bytes \<Rightarrow> pystr" where
  "hex d = concat (map (\<lambda>b. [hexdigit (unat b div 16), hexdigit (unat b mod 16)]) d)"

section \<open>The message store (\<open>storage.py\<close>)\<close>

text \<open>
  One row of the table \<open>messages\<close>. The column \<open>timestamp\<close> holds the text of
  \<open>datetime.isoformat()\<close>; such texts compare as the instants they denote (every field
  before the optional fraction has a fixed width, and a text without fraction is a proper
  prefix of the texts of the same second), so a timestamp is modelled by its instant: the
  number of microseconds since 0001-01-01T00:00:00, the smallest \<open>datetime\<close>.
\<close>

record message =
  row_id :: int
  timestamp :: int
  client_ip :: string
  client_port :: int
  data :: bytes
  data_text :: "pystr option"
  data_size :: int

text \<open>
  The database file: the rows of \<open>messages\<close> in rowid order and the counter that SQLite keeps
  in \<open>sqlite_sequence\<close> for a table whose key is declared \<open>INTEGER PRIMARY KEY AUTOINCREMENT\<close>
  (the largest rowid the table has ever held). \<open>_init_db\<close> creates the table only if it does
  not exist, so a fresh file starts as \<open>init_db\<close>.
\<close>

record database =
  rows :: "message list"
  sqlite_sequence :: int

definition init_db :: database where
  "init_db = \<lparr>rows = [], sqlite_sequence = 0\<rparr>"

definition day_us :: int where
  "day_us = 86400000000"

definition datetime_max :: int where
  "datetime_max = 3652059 * day_us - 1"

definition max_rowid :: int where
  "max_rowid = 9223372036854775807"

definition largest_rowid :: "database \<Rightarrow> int" where
  "largest_rowid db = fold max (map row_id (rows db)) (sqlite_sequence db)"

text \<open>
  \<open>store_message\<close>. \<open>now\<close> is the value of \<open>datetime.utcnow()\<close>; \<open>fault\<close> tells whether the
  persistence layer fails during the insert (an \<open>sqlite3\<close> error, which the method lets
  through). With AUTOINCREMENT the new rowid is one more than the largest rowid ever held,
  and the insert is refused once that is the largest 64-bit integer.
\<close>

definition store_message ::
  "int \<Rightarrow> bool \<Rightarrow> string \<Rightarrow> int \<Rightarrow> bytes \<Rightarrow> database \<Rightarrow> pyexc + (int \<times> database)" where
  "store_message now fault ip port d db =
     (let ts = now;
          size = int (length d);
          text = (case utf8_decode d of Inr s \<Rightarrow> Some s | Inl e \<Rightarrow> None)
      in if fault then Inl SqliteError
         else if largest_rowid db = max_rowid then Inl SqliteError
         else
           (let message_id = largest_rowid db + 1;
                row = \<lparr>row_id = message_id, timestamp = ts, client_ip = ip, client_port = port,
                       data = d, data_text = text, data_size = size\<rparr>
            in Inr (message_id, db\<lparr>rows := rows db @ [row], sqlite_sequence := message_id\<rparr>)))"

text \<open>
  \<open>get_messages\<close> builds its SQL text from the arguments that are truthy: \<open>None\<close>, \<open>0\<close> and
  the empty string add no clause.
\<close>

record sql_select =
  where_ip :: "string option"
  where_port :: "int option"
  limit_clause :: "int option"
  offset_clause :: "int option"

definition truthy_int :: "int option \<Rightarrow> int option" where
  "truthy_int v = (case v of None \<Rightarrow> None | Some n \<Rightarrow> if n = 0 then None else Some n)"

definition truthy_str :: "string option \<Rightarrow> string option" where
  "truthy_str v = (case v of None \<Rightarrow> None | Some s \<Rightarrow> if s = [] then None else Some s)"

definition build_query ::
  "int option \<Rightarrow> int option \<Rightarrow> string option \<Rightarrow> int option \<Rightarrow> sql_select" where
  "build_query limit offset ip port =
     \<lparr>where_ip = truthy_str ip, where_port = truthy_int port,
      limit_clause = truthy_int limit, offset_clause = truthy_int offset\<rparr>"

text \<open>The \<open>WHERE\<close> clause: the conditions that were appended, joined by \<open>AND\<close>.\<close>

definition matches :: "string option \<Rightarrow> int option \<Rightarrow> message \<Rightarrow> bool" where
  "matches cond_ip cond_port m =
     ((case cond_ip of None \<Rightarrow> True | Some s \<Rightarrow> client_ip m = s) \<and>
      (case cond_port of None \<Rightarrow> True | Some p \<Rightarrow> client_port m = p))"

text \<open>
  \<open>ORDER BY timestamp DESC\<close>. SQL leaves the order of rows with equal timestamps open; the
  model keeps them in rowid order, the order of the index \<open>idx_timestamp\<close>.
\<close>

definition order_by_timestamp_desc :: "message list \<Rightarrow> message list" where
  "order_by_timestamp_desc ms = sort_key (\<lambda>m. - timestamp m) ms"

text \<open>
  SQLite's \<open>LIMIT\<close> and \<open>OFFSET\<close>: a negative limit means no limit, a negative offset means
  none.
\<close>

definition window :: "int option \<Rightarrow> int option \<Rightarrow> 'a list \<Rightarrow> 'a list" where
  "window lim off xs =
     (let ys = (case off of None \<Rightarrow> xs | Some k \<Rightarrow> drop (nat k) xs)
      in case lim of None \<Rightarrow> ys | Some n \<Rightarrow> if n < 0 then ys else take (nat n) ys)"

text \<open>
  Running the statement. In SQLite's grammar \<open>OFFSET\<close> is part of the \<open>LIMIT\<close> clause, so
  the text \<open>... ORDER BY timestamp DESC OFFSET ?\<close> that \<open>get_messages\<close> builds for a truthy
  offset without a truthy limit is rejected with an \<open>OperationalError\<close>.
\<close>

definition run_select :: "sql_select \<Rightarrow> database \<Rightarrow> pyexc + message list" where
  "run_select q db =
     (if limit_clause q = None \<and> offset_clause q \<noteq> None then Inl SqliteError
      else Inr (window (limit_clause q) (offset_clause q)
                  (order_by_timestamp_desc (filter (matches (where_ip q) (where_port q)) (rows db)))))"

text \<open>The dictionaries that \<open>get_messages\<close> returns.\<close>

record message_dict =
  dict_id :: int
  dict_timestamp :: int
  dict_client_ip :: string
  dict_client_port :: int
  dict_data :: pystr
  dict_data_size :: int

definition row_to_dict :: "message \<Rightarrow> message_dict" where
  "row_to_dict row =
     \<lparr>dict_id = row_id row, dict_timestamp = timestamp row, dict_client_ip = client_ip row,
      dict_client_port = client_port row,
      dict_data = (case data_text row of
                     None \<Rightarrow> hex (data row)
                   | Some s \<Rightarrow> if s = [] then hex (data row) else s),
      dict_data_size = data_size row\<rparr>"

definition get_messages ::
  "int option \<Rightarrow> int option \<Rightarrow> string option \<Rightarrow> int option \<Rightarrow> database \<Rightarrow> pyexc + message_dict list" where
  "get_messages limit offset ip port db =
     (case run_select (build_query limit offset ip port) db of
        Inl e \<Rightarrow> Inl e
      | Inr rs \<Rightarrow> Inr (map row_to_dict rs))"

definition get_message_count :: "database \<Rightarrow> int" where
  "get_message_count db = int (length (rows db))"

definition clear_messages :: "database \<Rightarrow> database" where
  "clear_messages db = db\<lparr>rows := []\<rparr>"

text \<open>
  \<open>delete_old_messages\<close>. \<open>age\<close> is the \<open>timedelta\<close> built from \<open>days\<close>, in microseconds. A
  \<open>timedelta\<close> spans less than 10^9 days either way, and the subtraction raises
  \<open>OverflowError\<close> when the cutoff is not a \<open>datetime\<close> (before year 1 or after year 9999);
  both happen before the lock is taken.
\<close>

definition delete_old_messages ::
  "int \<Rightarrow> bool \<Rightarrow> int \<Rightarrow> database \<Rightarrow> pyexc + (int \<times> database)" where
  "delete_old_messages now fault age db =
     (if age < - (999999999 * day_us) \<or> 1000000000 * day_us \<le> age then Inl OverflowError
      else if now - age < 0 \<or> datetime_max < now - age then Inl OverflowError
      else
        (let cutoff_timestamp = now - age
         in if fault then Inl SqliteError
            else
              (let count = int (length (filter (\<lambda>m. timestamp m < cutoff_timestamp) (rows db)))
               in Inr (count,
                       db\<lparr>rows := filter (\<lambda>m. \<not> timestamp m < cutoff_timestamp) (rows db)\<rparr>))))"


section \<open>The UDP listener (\<open>udp_listener.py\<close>)\<close>

text \<open>
  \<open>self.sock\<close> is \<open>None\<close> until \<open>_run\<close> creates the socket, then an open socket, then a
  closed one.
\<close>

datatype sock_state = NoSocket | OpenSocket | ClosedSocket

text \<open>The lines the listener prints; only the ones that start with an error text report an error.\<close>

datatype preview = TextPreview pystr | BinaryPreview nat

datatype log_entry =
    LogStarted
  | LogStopped
  | LogListening
  | LogReceived int string int preview
  | LogEchoed int
  | LogSocketError
  | LogProcessingError pyexc
  | LogListenerError pyexc


text \<open>
  The listener object together with what it has done to the outside: \<open>sent\<close> lists the
  datagrams handed to \<open>sendto\<close> that went out, \<open>printed\<close> the lines printed.
\<close>

record listener =
  running :: bool
  sock :: sock_state
  storage :: database
  sent :: "(bytes \<times> addr) list"
  printed :: "log_entry list"

definition start :: "listener \<Rightarrow> listener" where
  "start L = (if running L then L else L\<lparr>running := True, printed := printed L @ [LogStarted]\<rparr>)"

definition close_socket :: "listener \<Rightarrow> listener" where
  "close_socket L = (if sock L = NoSocket then L else L\<lparr>sock := ClosedSocket\<rparr>)"

definition stop :: "listener \<Rightarrow> listener" where
  "stop L = (let L1 = close_socket (L\<lparr>running := False\<rparr>) in L1\<lparr>printed := printed L1 @ [LogStopped]\<rparr>)"

text \<open>
  What reaches the socket while the loop waits in \<open>recvfrom\<close>: a datagram from a peer, a
  fault of the socket, or a call of \<open>stop\<close> from the other thread, which closes the socket
  under the waiting call.
\<close>

datatype wire = Datagram bytes addr | RecvFault | Shutdown

text \<open>
  What else one pass of the loop meets: the clock that \<open>store_message\<close> reads, and whether
  the insert or the send fails.
\<close>

record step_env =
  utcnow :: int
  store_fault :: bool
  send_fault :: bool

text \<open>
  \<open>recvfrom(bufsize)\<close> on a datagram socket returns at most \<open>bufsize\<close> bytes of the
  datagram and discards the rest; on a closed socket it raises. \<open>sendto\<close> raises on a
  closed socket, on a fault of the transport, and for a payload beyond the 65507 bytes a UDP
  datagram can carry.
\<close>

definition recvfrom :: "nat \<Rightarrow> sock_state \<Rightarrow> wire \<Rightarrow> pyexc + (bytes \<times> addr)" where
  "recvfrom bufsize s w =
     (if s \<noteq> OpenSocket then Inl SocketError
      else case w of
             Datagram d a \<Rightarrow> Inr (take bufsize d, a)
           | RecvFault \<Rightarrow> Inl SocketError
           | Shutdown \<Rightarrow> Inl SocketError)"

definition sendto :: "sock_state \<Rightarrow> bool \<Rightarrow> bytes \<Rightarrow> addr \<Rightarrow> pyexc + nat" where
  "sendto s fault payload a =
     (if s \<noteq> OpenSocket \<or> fault \<or> 65507 < length payload then Inl SocketError
      else Inr (length payload))"

definition echo_prefix :: bytes where
  "echo_prefix = [0x45, 0x43, 0x48, 0x4F, 0x3A]"

definition data_preview :: "bytes \<Rightarrow> preview" where
  "data_preview d =
     (case utf8_decode d of
        Inr s \<Rightarrow> TextPreview (take 50 s @ (if 50 < length d then [46, 46, 46] else []))
      | Inl e \<Rightarrow> BinaryPreview (length d))"

text \<open>
  The two handlers of the loop: a \<open>socket.error\<close> is printed only while \<open>self.running\<close>
  holds and leaves the loop (\<open>break\<close>); any other exception is printed and the loop goes
  on. The second component tells whether the loop goes on.
\<close>

definition handle_exception :: "pyexc \<Rightarrow> listener \<Rightarrow> listener \<times> bool" where
  "handle_exception e L =
     (if is_socket_error e
      then ((if running L then L\<lparr>printed := printed L @ [LogSocketError]\<rparr> else L), False)
      else (L\<lparr>printed := printed L @ [LogProcessingError e]\<rparr>, True))"

text \<open>One pass of the body of \<open>while self.running\<close> in \<open>_run\<close>.\<close>

definition loop_body :: "wire \<Rightarrow> step_env \<Rightarrow> listener \<Rightarrow> listener \<times> bool" where
  "loop_body w env L0 =
     (let L = (case w of Shutdown \<Rightarrow> stop L0 | _ \<Rightarrow> L0)
      in case recvfrom 4096 (sock L) w of
           Inl e \<Rightarrow> handle_exception e L
         | Inr (d, a) \<Rightarrow>
             (case store_message (utcnow env) (store_fault env) (fst a) (snd a) d (storage L) of
                Inl e \<Rightarrow> handle_exception e L
              | Inr (message_id, db) \<Rightarrow>
                  (let L1 = L\<lparr>storage := db\<rparr>;
                       echo_response = echo_prefix @ d
                   in case sendto (sock L1) (send_fault env) echo_response a of
                        Inl e \<Rightarrow> handle_exception e L1
                      | Inr n \<Rightarrow>
                          (L1\<lparr>sent := sent L1 @ [(echo_response, a)],
                              printed := printed L1 @
                                [LogReceived message_id (fst a) (snd a) (data_preview d),
                                 LogEchoed message_id]\<rparr>, True))))"

text \<open>
  The loop, over what arrives at the socket. When nothing more arrives the thread stays in
  \<open>recvfrom\<close>; when the loop is left, the \<open>finally\<close> clause closes the socket.
\<close>

fun run_loop :: "listener \<Rightarrow> (wire \<times> step_env) list \<Rightarrow> listener" where
  "run_loop L [] = (if running L then L else close_socket L)"
| "run_loop L (ev # evs) =
     (if running L
      then (case loop_body (fst ev) (snd ev) L of
              (L', True) \<Rightarrow> run_loop L' evs
            | (L', False) \<Rightarrow> close_socket L')
      else close_socket L)"

text \<open>\<open>_run\<close>: the socket is created and bound; a failure to bind is printed and ends the thread.\<close>

definition run :: "bool \<Rightarrow> (wire \<times> step_env) list \<Rightarrow> listener \<Rightarrow> listener" where
  "run bind_ok evs L =
     (if bind_ok
      then run_loop (L\<lparr>sock := OpenSocket, printed := printed L @ [LogListening]\<rparr>) evs
      else close_socket (L\<lparr>sock := OpenSocket,
                            printed := printed L @ [LogListenerError SocketError]\<rparr>))"

section \<open>The retention scheduler (\<open>main.py\<close>)\<close>

text \<open>
  A naive \<open>datetime\<close>. The date is kept as its proleptic Gregorian ordinal (day 1 is
  0001-01-01, day 3652059 is 9999-12-31), which is what \<open>replace\<close> of the time fields leaves
  alone and what adding a \<open>timedelta\<close> of whole days moves.
\<close>

record datetime =
  ordinal :: int
  hour :: int
  minute :: int
  second :: int
  microsecond :: int

definition max_ordinal :: int where
  "max_ordinal = 3652059"

definition to_us :: "datetime \<Rightarrow> int" where
  "to_us t = (((ordinal t - 1) * 24 + hour t) * 60 + minute t) * 60000000
               + second t * 1000000 + microsecond t"

definition from_us :: "int \<Rightarrow> datetime" where
  "from_us c =
     \<lparr>ordinal = c div 86400000000 + 1,
      hour = c mod 86400000000 div 3600000000,
      minute = c mod 3600000000 div 60000000,
      second = c mod 60000000 div 1000000,
      microsecond = c mod 1000000\<rparr>"

definition datetime_le :: "datetime \<Rightarrow> datetime \<Rightarrow> bool" where
  "datetime_le a b = (to_us a \<le> to_us b)"

definition replace_midnight :: "datetime \<Rightarrow> datetime" where
  "replace_midnight t = t\<lparr>hour := 0, minute := 0, second := 0, microsecond := 0\<rparr>"

definition add_days :: "datetime \<Rightarrow> int \<Rightarrow> pyexc + datetime" where
  "add_days t n =
     (if ordinal t + n < 1 \<or> max_ordinal < ordinal t + n then Inl OverflowError
      else Inr (t\<lparr>ordinal := ordinal t + n\<rparr>))"

text \<open>
  The application object as the cleanup thread sees it. \<open>clock\<close> is the local wall clock in
  microseconds since 0001-01-01T00:00 local time and \<open>utc_offset\<close> what it is ahead of UTC.
  \<open>stop_time\<close> is the instant at which \<open>stop\<close> clears \<open>self.running\<close>, if it ever does.
\<close>

datatype cleanup_entry = LogDeleted int | LogNothingToDelete | LogCleanupError pyexc

record monitor =
  retention :: int
  mon_storage :: database
  clock :: int
  utc_offset :: int
  stop_time :: "int option"
  mon_printed :: "cleanup_entry list"

definition mon_running :: "monitor \<Rightarrow> bool" where
  "mon_running M = (case stop_time M of None \<Rightarrow> True | Some s \<Rightarrow> clock M < s)"

text \<open>\<open>time.sleep\<close> returns when the time asked for has passed.\<close>

definition sleep :: "int \<Rightarrow> monitor \<Rightarrow> monitor" where
  "sleep duration M = M\<lparr>clock := clock M + duration\<rparr>"

definition next_midnight :: "datetime \<Rightarrow> pyexc + datetime" where
  "next_midnight now =
     (let today_midnight = replace_midnight now
      in if datetime_le today_midnight now
         then (case add_days now 1 of
                 Inl e \<Rightarrow> Inl e
               | Inr tomorrow \<Rightarrow> Inr (replace_midnight tomorrow))
         else Inr today_midnight)"

text \<open>The \<open>except\<close> clause of the worker: print, then wait an hour.\<close>

definition cleanup_failed :: "pyexc \<Rightarrow> monitor \<Rightarrow> monitor \<times> bool" where
  "cleanup_failed e M =
     (sleep 3600000000 (M\<lparr>mon_printed := mon_printed M @ [LogCleanupError e]\<rparr>), True)"

text \<open>
  One pass of the body of \<open>while self.running\<close> in \<open>_cleanup_worker\<close>; \<open>fault\<close> tells whether
  the store fails during the purge. The second component tells whether the loop goes on.
\<close>

definition cleanup_body :: "bool \<Rightarrow> monitor \<Rightarrow> monitor \<times> bool" where
  "cleanup_body fault M =
     (let now = from_us (clock M)
      in case next_midnight now of
           Inl e \<Rightarrow> cleanup_failed e M
         | Inr midnight \<Rightarrow>
             (let sleep_us = to_us midnight - to_us now;
                  M1 = (if 0 < sleep_us then sleep sleep_us M else M)
              in if \<not> mon_running M1 then (M1, False)
                 else
                   (case delete_old_messages (clock M1 - utc_offset M1) fault (retention M1)
                           (mon_storage M1) of
                      Inl e \<Rightarrow> cleanup_failed e M1
                    | Inr (deleted_count, db) \<Rightarrow>
                        (M1\<lparr>mon_storage := db,
                            mon_printed := mon_printed M1 @
                              [if 0 < deleted_count then LogDeleted deleted_count
                               else LogNothingToDelete]\<rparr>, True))))"

fun cleanup_worker :: "monitor \<Rightarrow> bool list \<Rightarrow> monitor" where
  "cleanup_worker M [] = M"
| "cleanup_worker M (fault # faults) =
     (if mon_running M
      then (case cleanup_body fault M of
              (M', True) \<Rightarrow> cleanup_worker M' faults
            | (M', False) \<Rightarrow> M')
      else M)"

section \<open>Runs of the store, and the query as the specification words it\<close>

text \<open>
  A history of the store: inserts, purges by age and bulk clears, in any order, each with
  the clock it reads and the fault it meets. \<open>run_ops\<close> lists the ids that the inserts of a
  history return, in order; an operation that raises leaves the database as it was.
\<close>

datatype store_op =
    Insert int bool string int bytes
  | DeleteOld int bool int
  | Clear

fun run_ops :: "database \<Rightarrow> store_op list \<Rightarrow> int list" where
  "run_ops db [] = []"
| "run_ops db (Insert now fault ip port d # ops) =
     (case store_message now fault ip port d db of
        Inl e \<Rightarrow> run_ops db ops
      | Inr (i, db') \<Rightarrow> i # run_ops db' ops)"
| "run_ops db (DeleteOld now fault age # ops) =
     (case delete_old_messages now fault age db of
        Inl e \<Rightarrow> run_ops db ops
      | Inr (n, db') \<Rightarrow> run_ops db' ops)"
| "run_ops db (Clear # ops) = run_ops (clear_messages db) ops"


text \<open>
  The deadline of the specification: the next occurrence of midnight strictly after the
  instant \<open>c\<close> of the local clock.
\<close>

definition midnight_after :: "int \<Rightarrow> int" where
  "midnight_after c = (c div day_us + 1) * day_us"

section \<open>Properties of the store\<close>

subsection \<open>Row ids\<close>

lemma fold_max_ge: "(a::int) \<le> fold max xs a"
  by (induction xs arbitrary: a) (auto intro: order_trans [OF max.cobounded2])

lemma largest_rowid_ge_seq: "sqlite_sequence db \<le> largest_rowid db"
  by (simp add: largest_rowid_def fold_max_ge)

lemma store_message_ok:
  "\<not> fault \<Longrightarrow> largest_rowid db \<noteq> max_rowid \<Longrightarrow>
   store_message now fault ip port d db =
     Inr (largest_rowid db + 1,
          db\<lparr>rows := rows db @
                [\<lparr>row_id = largest_rowid db + 1, timestamp = now, client_ip = ip,
                  client_port = port, data = d,
                  data_text = (case utf8_decode d of Inr s \<Rightarrow> Some s | Inl e \<Rightarrow> None),
                  data_size = int (length d)\<rparr>],
             sqlite_sequence := largest_rowid db + 1\<rparr>)"
  by (simp add: store_message_def Let_def)

lemma store_message_fault:
  "fault \<Longrightarrow> store_message now fault ip port d db = Inl SqliteError"
  by (simp add: store_message_def Let_def)

lemma store_message_Inr:
  "store_message now fault ip port d db = Inr (i, db') \<Longrightarrow>
     i = largest_rowid db + 1 \<and> sqlite_sequence db' = i"
  by (auto simp: store_message_def Let_def split: if_splits)

lemma delete_old_messages_Inr:
  "delete_old_messages now fault age db = Inr (n, db') \<Longrightarrow>
     sqlite_sequence db' = sqlite_sequence db"
  by (auto simp: delete_old_messages_def Let_def split: if_splits)

lemma run_ops_above: "i \<in> set (run_ops db ops) \<Longrightarrow> sqlite_sequence db < i"
proof (induction db ops rule: run_ops.induct)
  case (1 db)
  then show ?case by simp
next
  case (2 db now fault ip port d ops)
  show ?case
  proof (cases "store_message now fault ip port d db")
    case (Inl e)
    then show ?thesis using 2 by simp
  next
    case (Inr p)
    obtain j db' where p: "p = (j, db')" by (cases p)
    from Inr p have s: "store_message now fault ip port d db = Inr (j, db')" by simp
    from store_message_Inr [OF s]
    have j: "j = largest_rowid db + 1" and q: "sqlite_sequence db' = j"
      by simp_all
    have lt: "sqlite_sequence db < j" using j largest_rowid_ge_seq [of db] by simp
    from 2(3) s have "i = j \<or> i \<in> set (run_ops db' ops)" by simp
    then show ?thesis
    proof
      assume "i = j" then show ?thesis using lt by simp
    next
      assume "i \<in> set (run_ops db' ops)"
      from 2(2) [OF s refl this] have "sqlite_sequence db' < i" .
      then show ?thesis using q lt by simp
    qed
  qed
next
  case (3 db now fault age ops)
  show ?case
  proof (cases "delete_old_messages now fault age db")
    case (Inl e)
    then show ?thesis using 3 by simp
  next
    case (Inr p)
    obtain n db' where p: "p = (n, db')" by (cases p)
    from Inr p have s: "delete_old_messages now fault age db = Inr (n, db')" by simp
    from 3(3) s have "i \<in> set (run_ops db' ops)" by simp
    from 3(2) [OF s refl this] delete_old_messages_Inr [OF s] show ?thesis by simp
  qed
next
  case (4 db ops)
  then show ?case by (simp add: clear_messages_def)
qed

lemma run_ops_increasing: "sorted_wrt (<) (run_ops db ops)"
proof (induction db ops rule: run_ops.induct)
  case (2 db now fault ip port d ops)
  show ?case
  proof (cases "store_message now fault ip port d db")
    case (Inl e)
    then show ?thesis using 2 by simp
  next
    case (Inr p)
    obtain j db' where p: "p = (j, db')" by (cases p)
    from Inr p have s: "store_message now fault ip port d db = Inr (j, db')" by simp
    from store_message_Inr [OF s] have q: "sqlite_sequence db' = j" by simp
    have "\<forall>i\<in>set (run_ops db' ops). j < i" using run_ops_above [of _ db' ops] q by auto
    then show ?thesis using 2(2) [OF s refl] s by simp
  qed
next
  case (3 db now fault age ops)
  then show ?case by (auto split: sum.splits)
qed simp_all

text \<open>
  C8. Whatever the database holds and whatever inserts, purges by age and bulk clears
  follow, the ids that the inserts return increase strictly in the order of the inserts, so
  no id is returned twice, and each is above the counter of the starting database, so above
  every id handed out before, whether its record still exists or was purged or cleared.
\<close>

theorem ids_increase_and_are_never_reused:
  "sorted_wrt (<) (run_ops db ops) \<and> distinct (run_ops db ops) \<and>
   (\<forall>i \<in> set (run_ops db ops). sqlite_sequence db < i)"
proof -
  have "distinct (run_ops db ops)"
    using run_ops_increasing [of db ops] by (simp add: strict_sorted_iff)
  then show ?thesis using run_ops_increasing run_ops_above by blast
qed

theorem ids_increase_and_are_never_reused_witness:
  "run_ops init_db [Insert 5 False ''10.0.0.1'' 1 [], Insert 6 False ''10.0.0.1'' 1 [], Clear,
      Insert 7 False ''10.0.0.1'' 1 [], DeleteOld 100 False 0,
      Insert 8 False ''10.0.0.1'' 1 []] = [1, 2, 3, 4] \<and>
   sorted_wrt (<) (run_ops init_db [Insert 5 False ''10.0.0.1'' 1 [],
      Insert 6 False ''10.0.0.1'' 1 [], Clear, Insert 7 False ''10.0.0.1'' 1 [],
      DeleteOld 100 False 0, Insert 8 False ''10.0.0.1'' 1 []])"
  using ids_increase_and_are_never_reused [of init_db "[Insert 5 False ''10.0.0.1'' 1 [],
      Insert 6 False ''10.0.0.1'' 1 [], Clear, Insert 7 False ''10.0.0.1'' 1 [],
      DeleteOld 100 False 0, Insert 8 False ''10.0.0.1'' 1 []]"]
  by (simp add: init_db_def store_message_def delete_old_messages_def clear_messages_def
      largest_rowid_def max_rowid_def day_us_def datetime_max_def Let_def)

subsection \<open>Insert\<close>

text \<open>
  C4. An insert that the persistence layer does not fail appends one record whose
  \<open>data_size\<close> is the byte length of the payload and whose \<open>data_text\<close> is present exactly
  when the payload decodes as UTF-8, and then is that decoding; a payload that does not
  decode is stored all the same, with \<open>data_text\<close> absent.
\<close>

theorem store_message_size_and_text:
  assumes "\<not> fault" and "largest_rowid db \<noteq> max_rowid"
  shows "\<exists>i db' r. store_message now fault ip port d db = Inr (i, db') \<and>
           rows db' = rows db @ [r] \<and> data r = d \<and> data_size r = int (length d) \<and>
           (data_text r \<noteq> None \<longleftrightarrow> (\<exists>s. utf8_decode d = Inr s)) \<and>
           (\<forall>s. utf8_decode d = Inr s \<longrightarrow> data_text r = Some s) \<and>
           (\<forall>e. utf8_decode d = Inl e \<longrightarrow> data_text r = None)"
  using assms by (cases "utf8_decode d") (simp_all add: store_message_ok)

theorem store_message_size_and_text_witness:
  "largest_rowid init_db \<noteq> max_rowid \<and>
   utf8_decode [0x00, 0x01, 0xFF] = Inl UnicodeDecodeError \<and>
   store_message 63897000000000000 False ''192.168.1.100'' 54321 [0x00, 0x01, 0xFF] init_db =
     Inr (1, \<lparr>rows = [\<lparr>row_id = 1, timestamp = 63897000000000000,
                        client_ip = ''192.168.1.100'', client_port = 54321,
                        data = [0x00, 0x01, 0xFF], data_text = None, data_size = 3\<rparr>],
              sqlite_sequence = 1\<rparr>) \<and>
   utf8_decode [0x48, 0x69, 0xC3, 0xA9] = Inr [72, 105, 233] \<and>
   store_message 63897000000000000 False ''192.168.1.100'' 54321 [0x48, 0x69, 0xC3, 0xA9]
       init_db =
     Inr (1, \<lparr>rows = [\<lparr>row_id = 1, timestamp = 63897000000000000,
                        client_ip = ''192.168.1.100'', client_port = 54321,
                        data = [0x48, 0x69, 0xC3, 0xA9], data_text = Some [72, 105, 233],
                        data_size = 4\<rparr>],
              sqlite_sequence = 1\<rparr>)"
  using store_message_size_and_text [of False init_db 63897000000000000 "''192.168.1.100''"
      54321 "[0x00, 0x01, 0xFF]"]
  by (simp add: store_message_def init_db_def largest_rowid_def max_rowid_def utf8_decode_def
      Let_def)

subsection \<open>Purge by age\<close>

lemma length_filter_split:
  "int (length (filter P xs)) = int (length xs) - int (length (filter (\<lambda>x. \<not> P x) xs))"
  by (induction xs) auto

lemma delete_old_messages_ok:
  assumes "0 \<le> age" and "age \<le> now" and "now \<le> datetime_max" and "\<not> fault"
  shows "delete_old_messages now fault age db =
     Inr (int (length (filter (\<lambda>m. timestamp m < now - age) (rows db))),
          db\<lparr>rows := filter (\<lambda>m. \<not> timestamp m < now - age) (rows db)\<rparr>)"
  using assms by (simp add: delete_old_messages_def Let_def datetime_max_def day_us_def)

text \<open>
  C3, as the code has it. For an age that is not negative and reaches no further back than
  0001-01-01T00:00:00, so that the cutoff \<open>now - age\<close> is a \<open>datetime\<close>, the purge keeps
  exactly the records that are not strictly older than the cutoff and returns the number of
  records it removed. With an age of zero, once the clock has moved past the timestamp of
  every record present, all of them are removed: the number returned is the count before
  and the count afterwards is zero.
\<close>

theorem delete_old_messages_removes_older:
  assumes "0 \<le> age" and "age \<le> now" and "now \<le> datetime_max" and "\<not> fault"
  shows "\<exists>n db'. delete_old_messages now fault age db = Inr (n, db') \<and>
           rows db' = filter (\<lambda>m. \<not> timestamp m < now - age) (rows db) \<and>
           n = int (length (filter (\<lambda>m. timestamp m < now - age) (rows db))) \<and>
           n = get_message_count db - get_message_count db' \<and>
           sqlite_sequence db' = sqlite_sequence db \<and>
           (age = 0 \<and> (\<forall>m \<in> set (rows db). timestamp m < now) \<longrightarrow>
              n = get_message_count db \<and> get_message_count db' = 0)"
proof -
  let ?old = "\<lambda>m. timestamp m < now - age"
  have all: "age = 0 \<and> (\<forall>m \<in> set (rows db). timestamp m < now) \<longrightarrow>
               filter (\<lambda>m. \<not> ?old m) (rows db) = []"
    by (auto simp: filter_empty_conv)
  show ?thesis
    unfolding delete_old_messages_ok [OF assms]
    using all length_filter_split [of ?old "rows db"]
    by (auto simp: get_message_count_def)
qed

theorem delete_old_messages_removes_older_witness:
  "(0::int) \<le> 86400000000 \<and> (86400000000::int) \<le> 63897000000000000 \<and>
   63897000000000000 \<le> datetime_max \<and>
   delete_old_messages 63897000000000000 False 86400000000
     \<lparr>rows = [\<lparr>row_id = 1, timestamp = 63896900000000000, client_ip = ''192.168.1.100'',
                client_port = 54321, data = [0x41], data_text = Some [65], data_size = 1\<rparr>,
              \<lparr>row_id = 2, timestamp = 63896990000000000, client_ip = ''192.168.1.101'',
                client_port = 54322, data = [0xFF], data_text = None, data_size = 1\<rparr>],
      sqlite_sequence = 2\<rparr> =
     Inr (1, \<lparr>rows = [\<lparr>row_id = 2, timestamp = 63896990000000000,
                        client_ip = ''192.168.1.101'', client_port = 54322, data = [0xFF],
                        data_text = None, data_size = 1\<rparr>],
              sqlite_sequence = 2\<rparr>) \<and>
   delete_old_messages 63897000000000000 False 0
     \<lparr>rows = [\<lparr>row_id = 1, timestamp = 63896900000000000, client_ip = ''192.168.1.100'',
                client_port = 54321, data = [0x41], data_text = Some [65], data_size = 1\<rparr>,
              \<lparr>row_id = 2, timestamp = 63896990000000000, client_ip = ''192.168.1.101'',
                client_port = 54322, data = [0xFF], data_text = None, data_size = 1\<rparr>],
      sqlite_sequence = 2\<rparr> =
     Inr (2, \<lparr>rows = [], sqlite_sequence = 2\<rparr>)"
  using delete_old_messages_removes_older [of 0 63897000000000000 False
      "\<lparr>rows = [\<lparr>row_id = 1, timestamp = 63896900000000000, client_ip = ''192.168.1.100'',
                client_port = 54321, data = [0x41], data_text = Some [65], data_size = 1\<rparr>,
              \<lparr>row_id = 2, timestamp = 63896990000000000, client_ip = ''192.168.1.101'',
                client_port = 54322, data = [0xFF], data_text = None, data_size = 1\<rparr>],
      sqlite_sequence = 2\<rparr>"]
  by (simp add: delete_old_messages_def datetime_max_def day_us_def Let_def)

text \<open>
  The property as the specification states it fails for an age that reaches back before year
  1, here a million days counted from an instant in the year 2025: the subtraction raises
  and nothing is removed or counted. And with an age of zero a record stamped with the very
  reading of the clock that the purge takes is not strictly older than the cutoff: it stays,
  and the number returned is zero where the count before is one.
\<close>

theorem delete_old_messages_counterexample:
  "(0::int) \<le> 1000000 * day_us \<and>
   delete_old_messages 63897000000000000 False (1000000 * day_us)
     \<lparr>rows = [\<lparr>row_id = 1, timestamp = 63896900000000000, client_ip = ''192.168.1.100'',
                client_port = 54321, data = [0x41], data_text = Some [65], data_size = 1\<rparr>],
      sqlite_sequence = 1\<rparr> = Inl OverflowError \<and>
   delete_old_messages 63897000000000000 False 0
     \<lparr>rows = [\<lparr>row_id = 1, timestamp = 63897000000000000, client_ip = ''192.168.1.100'',
                client_port = 54321, data = [0x41], data_text = Some [65], data_size = 1\<rparr>],
      sqlite_sequence = 1\<rparr> =
     Inr (0, \<lparr>rows = [\<lparr>row_id = 1, timestamp = 63897000000000000,
                        client_ip = ''192.168.1.100'', client_port = 54321, data = [0x41],
                        data_text = Some [65], data_size = 1\<rparr>],
              sqlite_sequence = 1\<rparr>)"
  by (simp add: delete_old_messages_def day_us_def datetime_max_def Let_def)

subsection \<open>Query\<close>



lemma window_sorted: "sorted_wrt P xs \<Longrightarrow> sorted_wrt P (window lim off xs)"
  by (auto simp: window_def Let_def sorted_wrt_take sorted_wrt_drop split: option.splits)







text \<open>
  C10. An argument that is given but falsy changes nothing: a limit of zero, an offset of
  zero, the empty string as address filter and zero as port filter each behave as the
  argument left out. So a limit of zero (with no offset, or an offset of zero) returns every
  matching record, most recent first. Without a limit the offset is never applied: the
  call returns every matching record or, when the offset is not zero, nothing at all,
  because the statement built has an \<open>OFFSET\<close> without a \<open>LIMIT\<close> and is rejected.
\<close>

theorem get_messages_falsy_arguments:
  "get_messages (Some 0) offset ip port db = get_messages None offset ip port db \<and>
   get_messages limit (Some 0) ip port db = get_messages limit None ip port db \<and>
   get_messages limit offset (Some []) port db = get_messages limit offset None port db \<and>
   get_messages limit offset ip (Some 0) db = get_messages limit offset ip None db \<and>
   (truthy_int offset = None \<longrightarrow>
      get_messages (Some 0) offset ip port db =
        Inr (map row_to_dict (order_by_timestamp_desc
               (filter (matches (truthy_str ip) (truthy_int port)) (rows db))))) \<and>
   (truthy_int limit = None \<longrightarrow>
      (\<forall>r. get_messages limit offset ip port db = Inr r \<longrightarrow>
           r = map row_to_dict (order_by_timestamp_desc
                 (filter (matches (truthy_str ip) (truthy_int port)) (rows db))))) \<and>
   (truthy_int limit = None \<and> truthy_int offset \<noteq> None \<longrightarrow>
      get_messages limit offset ip port db = Inl SqliteError)"
proof -
  have a: "get_messages (Some 0) offset ip port db = get_messages None offset ip port db"
    by (simp add: get_messages_def build_query_def truthy_int_def)
  have b: "get_messages limit (Some 0) ip port db = get_messages limit None ip port db"
    by (simp add: get_messages_def build_query_def truthy_int_def)
  have c: "get_messages limit offset (Some []) port db = get_messages limit offset None port db"
    by (simp add: get_messages_def build_query_def truthy_str_def)
  have d: "get_messages limit offset ip (Some 0) db = get_messages limit offset ip None db"
    by (simp add: get_messages_def build_query_def truthy_int_def)
  have e: "truthy_int offset = None \<longrightarrow>
      get_messages (Some 0) offset ip port db =
        Inr (map row_to_dict (order_by_timestamp_desc
               (filter (matches (truthy_str ip) (truthy_int port)) (rows db))))"
    by (simp add: get_messages_def run_select_def build_query_def window_def truthy_int_def)
  have f: "truthy_int limit = None \<longrightarrow>
      (\<forall>r. get_messages limit offset ip port db = Inr r \<longrightarrow>
           r = map row_to_dict (order_by_timestamp_desc
                 (filter (matches (truthy_str ip) (truthy_int port)) (rows db))))"
    by (auto simp: get_messages_def run_select_def build_query_def window_def split: if_splits)
  have g: "truthy_int limit = None \<and> truthy_int offset \<noteq> None \<longrightarrow>
      get_messages limit offset ip port db = Inl SqliteError"
    by (simp add: get_messages_def run_select_def build_query_def)
  from a b c d e f g show ?thesis by blast
qed

theorem get_messages_falsy_arguments_witness:
  "truthy_int (Some 0) = None \<and>
   get_messages (Some 0) (Some 0) (Some []) (Some 0)
     \<lparr>rows = [\<lparr>row_id = 1, timestamp = 100, client_ip = ''10.0.0.1'', client_port = 5000,
                data = [0x41], data_text = Some [65], data_size = 1\<rparr>,
              \<lparr>row_id = 2, timestamp = 300, client_ip = ''10.0.0.2'', client_port = 5001,
                data = [0xFF], data_text = None, data_size = 1\<rparr>],
      sqlite_sequence = 2\<rparr> =
     Inr [\<lparr>dict_id = 2, dict_timestamp = 300, dict_client_ip = ''10.0.0.2'',
           dict_client_port = 5001, dict_data = [102, 102], dict_data_size = 1\<rparr>,
          \<lparr>dict_id = 1, dict_timestamp = 100, dict_client_ip = ''10.0.0.1'',
           dict_client_port = 5000, dict_data = [65], dict_data_size = 1\<rparr>] \<and>
   truthy_int (Some 1) \<noteq> None \<and>
   get_messages (Some 0) (Some 1) (Some []) (Some 0)
     \<lparr>rows = [\<lparr>row_id = 1, timestamp = 100, client_ip = ''10.0.0.1'', client_port = 5000,
                data = [0x41], data_text = Some [65], data_size = 1\<rparr>,
              \<lparr>row_id = 2, timestamp = 300, client_ip = ''10.0.0.2'', client_port = 5001,
                data = [0xFF], data_text = None, data_size = 1\<rparr>],
      sqlite_sequence = 2\<rparr> = Inl SqliteError"
  using get_messages_falsy_arguments [of "Some 0" "Some []" "Some 0"
     "\<lparr>rows = [\<lparr>row_id = 1, timestamp = 100, client_ip = ''10.0.0.1'', client_port = 5000,
                data = [0x41], data_text = Some [65], data_size = 1\<rparr>,
              \<lparr>row_id = 2, timestamp = 300, client_ip = ''10.0.0.2'', client_port = 5001,
                data = [0xFF], data_text = None, data_size = 1\<rparr>],
      sqlite_sequence = 2\<rparr>" "Some 0"]
  by (simp add: get_messages_def run_select_def build_query_def truthy_int_def truthy_str_def
      window_def matches_def order_by_timestamp_desc_def row_to_dict_def hex_def hexdigit_def)

section \<open>Properties of the listener\<close>

lemma store_message_raises: "store_message now fault ip port d db = Inl e \<Longrightarrow> e = SqliteError"
  by (auto simp: store_message_def Let_def split: if_splits)

lemma loop_body_echo:
  assumes "sock L = OpenSocket" and "\<not> store_fault env" and "\<not> send_fault env"
    and "largest_rowid (storage L) \<noteq> max_rowid"
  shows "\<exists>L'. loop_body (Datagram d a) env L = (L', True) \<and>
           sent L' = sent L @ [(echo_prefix @ take 4096 d, a)]"
proof -
  have len: "length (echo_prefix @ take 4096 d) \<le> 65507"
    by (simp add: echo_prefix_def)
  show ?thesis
    using assms len
    by (simp add: loop_body_def recvfrom_def sendto_def store_message_ok Let_def)
qed

lemma loop_body_store_raises:
  assumes "sock L = OpenSocket"
    and "store_message (utcnow env) (store_fault env) (fst a) (snd a) (take 4096 d) (storage L) = Inl e"
  shows "loop_body (Datagram d a) env L = (L\<lparr>printed := printed L @ [LogProcessingError e]\<rparr>, True)"
  using assms store_message_raises [OF assms(2)]
  by (simp add: loop_body_def recvfrom_def handle_exception_def)

lemma loop_body_send_fault:
  assumes "sock L = OpenSocket" and "running L" and "send_fault env"
    and "store_message (utcnow env) (store_fault env) (fst a) (snd a) (take 4096 d) (storage L) = Inr (i, db)"
  shows "loop_body (Datagram d a) env L =
           (L\<lparr>storage := db, printed := printed L @ [LogSocketError]\<rparr>, False)"
  using assms
  by (simp add: loop_body_def recvfrom_def sendto_def handle_exception_def Let_def)

lemma loop_body_sent:
  assumes "sock L = OpenSocket" and "sent (fst (loop_body (Datagram d a) env L)) \<noteq> sent L"
  shows "\<exists>i. store_message (utcnow env) (store_fault env) (fst a) (snd a) (take 4096 d) (storage L) =
           Inr (i, storage (fst (loop_body (Datagram d a) env L)))"
  using assms
  by (auto simp: loop_body_def recvfrom_def sendto_def handle_exception_def Let_def
      split: sum.splits if_splits)



text \<open>
  C1, as the code has it. The listener reads at most 4096 bytes of a datagram. When neither
  the insert nor the send fails, a datagram \<open>d\<close> from a peer brings exactly one reply, to
  that peer: the prefix \<open>ECHO:\<close> followed by the first 4096 bytes of \<open>d\<close>. So for a datagram
  of at most 4096 bytes the reply is \<open>ECHO:\<close> followed by \<open>d\<close>, five bytes longer than \<open>d\<close>.
\<close>

theorem listener_echoes_datagram:
  assumes "sock L = OpenSocket" and "\<not> store_fault env" and "\<not> send_fault env"
    and "largest_rowid (storage L) \<noteq> max_rowid"
  shows "\<exists>L'. loop_body (Datagram d a) env L = (L', True) \<and>
           sent L' = sent L @ [(echo_prefix @ take 4096 d, a)] \<and>
           (length d \<le> 4096 \<longrightarrow>
              sent L' = sent L @ [(echo_prefix @ d, a)] \<and>
              length (echo_prefix @ d) = length d + 5)"
proof -
  from loop_body_echo [OF assms] obtain L' where
    "loop_body (Datagram d a) env L = (L', True)"
    "sent L' = sent L @ [(echo_prefix @ take 4096 d, a)]" by blast
  then show ?thesis by (auto simp: echo_prefix_def)
qed

theorem listener_echoes_datagram_witness:
  "largest_rowid init_db \<noteq> max_rowid \<and>
   loop_body (Datagram [0x48, 0x69] (''192.168.1.100'', 54321))
     \<lparr>utcnow = 63897000000000000, store_fault = False, send_fault = False\<rparr>
     \<lparr>running = True, sock = OpenSocket, storage = init_db, sent = [], printed = []\<rparr> =
   (\<lparr>running = True, sock = OpenSocket,
     storage = \<lparr>rows = [\<lparr>row_id = 1, timestamp = 63897000000000000,
                          client_ip = ''192.168.1.100'', client_port = 54321,
                          data = [0x48, 0x69], data_text = Some [72, 105], data_size = 2\<rparr>],
                sqlite_sequence = 1\<rparr>,
     sent = [([0x45, 0x43, 0x48, 0x4F, 0x3A, 0x48, 0x69], (''192.168.1.100'', 54321))],
     printed = [LogReceived 1 ''192.168.1.100'' 54321 (TextPreview [72, 105]), LogEchoed 1]\<rparr>,
    True) \<and>
   loop_body (Datagram [] (''192.168.1.100'', 54321))
     \<lparr>utcnow = 63897000000000000, store_fault = False, send_fault = False\<rparr>
     \<lparr>running = True, sock = OpenSocket, storage = init_db, sent = [], printed = []\<rparr> =
   (\<lparr>running = True, sock = OpenSocket,
     storage = \<lparr>rows = [\<lparr>row_id = 1, timestamp = 63897000000000000,
                          client_ip = ''192.168.1.100'', client_port = 54321,
                          data = [], data_text = Some [], data_size = 0\<rparr>],
                sqlite_sequence = 1\<rparr>,
     sent = [([0x45, 0x43, 0x48, 0x4F, 0x3A], (''192.168.1.100'', 54321))],
     printed = [LogReceived 1 ''192.168.1.100'' 54321 (TextPreview []), LogEchoed 1]\<rparr>,
    True)"
  using listener_echoes_datagram [of
     "\<lparr>running = True, sock = OpenSocket, storage = init_db, sent = [], printed = []\<rparr>"
     "\<lparr>utcnow = 63897000000000000, store_fault = False, send_fault = False\<rparr>"
     "[0x48, 0x69]" "(''192.168.1.100'', 54321)"]
  by (simp add: loop_body_def recvfrom_def sendto_def store_message_def init_db_def
      largest_rowid_def max_rowid_def utf8_decode_def echo_prefix_def data_preview_def Let_def)

text \<open>
  The property as the specification states it fails for a datagram longer than the buffer,
  here 4097 bytes, well within the 65507 a UDP datagram can carry: the reply carries 4096 of
  them.
\<close>

theorem listener_echo_counterexample:
  "length (replicate 4097 (0x41 :: byte)) \<le> 65507 \<and>
   sent (fst (loop_body (Datagram (replicate 4097 0x41) (''192.168.1.100'', 54321))
     \<lparr>utcnow = 63897000000000000, store_fault = False, send_fault = False\<rparr>
     \<lparr>running = True, sock = OpenSocket, storage = init_db, sent = [], printed = []\<rparr>)) =
     [(echo_prefix @ replicate 4096 0x41, (''192.168.1.100'', 54321))] \<and>
   echo_prefix @ replicate 4096 0x41 \<noteq> echo_prefix @ replicate 4097 (0x41 :: byte)"
proof -
  let ?L = "\<lparr>running = True, sock = OpenSocket, storage = init_db, sent = [], printed = []\<rparr>"
  let ?env = "\<lparr>utcnow = 63897000000000000, store_fault = False, send_fault = False\<rparr>"
  have "largest_rowid (storage ?L) \<noteq> max_rowid"
    by (simp add: init_db_def largest_rowid_def max_rowid_def)
  from loop_body_echo [of ?L ?env "replicate 4097 0x41" "(''192.168.1.100'', 54321)", OF _ _ _ this]
  obtain L' where
    "loop_body (Datagram (replicate 4097 0x41) (''192.168.1.100'', 54321)) ?env ?L = (L', True)"
    "sent L' = sent ?L @ [(echo_prefix @ take 4096 (replicate 4097 0x41), (''192.168.1.100'', 54321))]"
    by auto
  moreover have "replicate 4096 (0x41 :: byte) \<noteq> replicate 4097 0x41"
    by (simp add: replicate_eq_replicate)
  ultimately show ?thesis by simp
qed

text \<open>
  C5, as the code has it. The insert comes before the echo: a reply goes out only after the
  insert has returned. If the insert fails, no reply is sent and the store is as before, the
  failure is printed and the loop goes on. If the insert succeeds and the send fails, the
  record stays stored and no reply is sent; the error is printed and the loop ends, the
  socket is closed and what arrives afterwards is not received.
\<close>

theorem listener_stores_before_echo:
  assumes "sock L = OpenSocket" and "running L"
  shows "(\<forall>e. store_message (utcnow env) (store_fault env) (fst a) (snd a) (take 4096 d)
               (storage L) = Inl e \<longrightarrow>
            loop_body (Datagram d a) env L =
              (L\<lparr>printed := printed L @ [LogProcessingError e]\<rparr>, True)) \<and>
         (\<forall>i db. store_message (utcnow env) (store_fault env) (fst a) (snd a) (take 4096 d)
                  (storage L) = Inr (i, db) \<and> send_fault env \<longrightarrow>
            loop_body (Datagram d a) env L =
              (L\<lparr>storage := db, printed := printed L @ [LogSocketError]\<rparr>, False) \<and>
            run_loop L ((Datagram d a, env) # evs) =
              L\<lparr>sock := ClosedSocket, storage := db, printed := printed L @ [LogSocketError]\<rparr>) \<and>
         (sent (fst (loop_body (Datagram d a) env L)) \<noteq> sent L \<longrightarrow>
            (\<exists>i. store_message (utcnow env) (store_fault env) (fst a) (snd a) (take 4096 d)
                   (storage L) = Inr (i, storage (fst (loop_body (Datagram d a) env L)))))"
proof -
  have r: "run_loop L ((Datagram d a, env) # evs) =
           L\<lparr>sock := ClosedSocket, storage := db, printed := printed L @ [LogSocketError]\<rparr>"
    if "loop_body (Datagram d a) env L =
          (L\<lparr>storage := db, printed := printed L @ [LogSocketError]\<rparr>, False)" for db
    using that assms by (simp add: close_socket_def)
  show ?thesis
    using loop_body_store_raises [OF assms(1)] loop_body_send_fault [OF assms]
      loop_body_sent [OF assms(1)] r
    by blast
qed

theorem listener_stores_before_echo_witness:
  "loop_body (Datagram [0x48, 0x69] (''192.168.1.100'', 54321))
     \<lparr>utcnow = 63897000000000000, store_fault = True, send_fault = False\<rparr>
     \<lparr>running = True, sock = OpenSocket, storage = init_db, sent = [], printed = []\<rparr> =
   (\<lparr>running = True, sock = OpenSocket, storage = init_db, sent = [],
     printed = [LogProcessingError SqliteError]\<rparr>, True) \<and>
   loop_body (Datagram [0x48, 0x69] (''192.168.1.100'', 54321))
     \<lparr>utcnow = 63897000000000000, store_fault = False, send_fault = True\<rparr>
     \<lparr>running = True, sock = OpenSocket, storage = init_db, sent = [], printed = []\<rparr> =
   (\<lparr>running = True, sock = OpenSocket,
     storage = \<lparr>rows = [\<lparr>row_id = 1, timestamp = 63897000000000000,
                          client_ip = ''192.168.1.100'', client_port = 54321,
                          data = [0x48, 0x69], data_text = Some [72, 105], data_size = 2\<rparr>],
                sqlite_sequence = 1\<rparr>,
     sent = [], printed = [LogSocketError]\<rparr>, False)"
  using listener_stores_before_echo [of
     "\<lparr>running = True, sock = OpenSocket, storage = init_db, sent = [], printed = []\<rparr>"
     "\<lparr>utcnow = 63897000000000000, store_fault = False, send_fault = True\<rparr>"
     "(''192.168.1.100'', 54321)" "[0x48, 0x69]" "[]"]
  by (simp add: loop_body_def recvfrom_def sendto_def store_message_def init_db_def
      largest_rowid_def max_rowid_def utf8_decode_def echo_prefix_def handle_exception_def
      Let_def)

text \<open>
  The property as the specification states it fails where the send fails: the loop does not
  go on. Of two datagrams, the first with a failing send, the first is stored and not
  answered, and the second is neither stored nor answered, the socket being closed by then.
\<close>

theorem listener_echo_failure_counterexample:
  "run_loop \<lparr>running = True, sock = OpenSocket, storage = init_db, sent = [], printed = []\<rparr>
     [(Datagram [0x48, 0x69] (''192.168.1.100'', 54321),
       \<lparr>utcnow = 63897000000000000, store_fault = False, send_fault = True\<rparr>),
      (Datagram [0x48, 0x6F] (''192.168.1.101'', 54322),
       \<lparr>utcnow = 63897000001000000, store_fault = False, send_fault = False\<rparr>)] =
   \<lparr>running = True, sock = ClosedSocket,
    storage = \<lparr>rows = [\<lparr>row_id = 1, timestamp = 63897000000000000,
                         client_ip = ''192.168.1.100'', client_port = 54321,
                         data = [0x48, 0x69], data_text = Some [72, 105], data_size = 2\<rparr>],
               sqlite_sequence = 1\<rparr>,
    sent = [], printed = [LogSocketError]\<rparr>"
  by (simp add: loop_body_def recvfrom_def sendto_def store_message_def init_db_def
      largest_rowid_def max_rowid_def utf8_decode_def echo_prefix_def handle_exception_def
      close_socket_def Let_def)



section \<open>Properties of the retention scheduler\<close>

lemma split_mod: "b dvd a \<Longrightarrow> (x::int) mod a = (x mod a div b) * b + x mod b"
  using div_mult_mod_eq [of "x mod a" b] mod_mod_cancel [of b a x] by simp

lemma clock_fields:
  "r3 = s * 1000000 + u \<Longrightarrow> r2 = m * 60000000 + r3 \<Longrightarrow> r1 = h * 3600000000 + r2 \<Longrightarrow>
   c = 86400000000 * a + r1 \<Longrightarrow>
   (((a + 1 - 1) * 24 + h) * 60 + m) * 60000000 + s * 1000000 + u = (c::int)"
  by simp

lemma to_us_from_us_unfolded:
  "to_us (from_us c) =
     (((c div 86400000000 + 1 - 1) * 24 + c mod 86400000000 div 3600000000) * 60
        + c mod 3600000000 div 60000000) * 60000000
       + c mod 60000000 div 1000000 * 1000000 + c mod 1000000"
  by (simp add: to_us_def from_us_def)

lemma to_us_from_us: "to_us (from_us c) = c"
proof -
  have 1: "c mod 60000000 = (c mod 60000000 div 1000000) * 1000000 + c mod 1000000"
    by (rule split_mod) simp
  have 2: "c mod 3600000000 = (c mod 3600000000 div 60000000) * 60000000 + c mod 60000000"
    by (rule split_mod) simp
  have 3: "c mod 86400000000 =
             (c mod 86400000000 div 3600000000) * 3600000000 + c mod 3600000000"
    by (rule split_mod) simp
  have 4: "c = 86400000000 * (c div 86400000000) + c mod 86400000000"
    by (rule mult_div_mod_eq [symmetric])
  show ?thesis
    unfolding to_us_from_us_unfolded by (rule clock_fields [OF 1 2 3 4])
qed

lemma to_us_midnight:
  "to_us (replace_midnight (from_us c)) = c div day_us * day_us"
  by (simp add: to_us_def from_us_def replace_midnight_def day_us_def)

lemma from_us_midnight:
  "from_us (k * day_us) = \<lparr>ordinal = k + 1, hour = 0, minute = 0, second = 0, microsecond = 0\<rparr>"
proof -
  have d: "(3600000000::int) dvd 86400000000" "(60000000::int) dvd 86400000000"
      "(1000000::int) dvd 86400000000" by simp_all
  have a: "k * 86400000000 mod 3600000000 = 0" "k * 86400000000 mod 60000000 = 0"
    "k * 86400000000 mod 1000000 = 0"
    using d by (simp_all only: mod_eq_0_iff_dvd dvd_mult)
  show ?thesis
    by (simp add: from_us_def day_us_def a)
qed

lemma day_us_pos: "0 < day_us"
  by (simp add: day_us_def)

lemma div_mult_le: "0 < (D::int) \<Longrightarrow> c div D * D \<le> c"
  using div_mult_mod_eq [of c D] pos_mod_sign [of D c] by linarith

lemma div_mult_gt: "0 < (D::int) \<Longrightarrow> c < (c div D + 1) * D"
proof -
  assume D: "0 < D"
  have e: "c div D * D + c mod D = c" by (rule div_mult_mod_eq)
  have b: "c mod D < D" using D by (rule pos_mod_bound)
  have "(c div D + 1) * D = c div D * D + D" by (simp add: algebra_simps)
  with e b show ?thesis by linarith
qed

lemma midnight_after_bounds:
  "c < midnight_after c \<and> midnight_after c \<le> c + day_us \<and> midnight_after c mod day_us = 0"
proof -
  have "midnight_after c = c div day_us * day_us + day_us"
    by (simp add: midnight_after_def algebra_simps)
  then show ?thesis
    using div_mult_gt [OF day_us_pos, of c] div_mult_le [OF day_us_pos, of c]
    by (simp add: midnight_after_def)
qed

lemma next_midnight_from_us:
  assumes "0 \<le> c" and "c div day_us + 2 \<le> max_ordinal"
  shows "next_midnight (from_us c) = Inr (from_us (midnight_after c))"
proof -
  have le: "datetime_le (replace_midnight (from_us c)) (from_us c)"
    unfolding datetime_le_def to_us_midnight to_us_from_us
    by (rule div_mult_le [OF day_us_pos])
  have d: "0 \<le> c div day_us"
    using assms(1) day_us_pos by (simp add: pos_imp_zdiv_nonneg_iff)
  have o: "ordinal (from_us c) = c div day_us + 1"
    by (simp add: from_us_def day_us_def)
  have add: "add_days (from_us c) 1 = Inr ((from_us c)\<lparr>ordinal := c div day_us + 2\<rparr>)"
    using assms(2) d by (simp add: add_days_def o)
  have r: "replace_midnight ((from_us c)\<lparr>ordinal := c div day_us + 2\<rparr>) =
           from_us ((c div day_us + 1) * day_us)"
    unfolding from_us_midnight by (simp add: replace_midnight_def)
  show ?thesis
    unfolding next_midnight_def Let_def midnight_after_def using le by (simp add: add r)
qed

lemma cleanup_body_unfold:
  assumes "0 \<le> clock M" and "clock M div day_us + 2 \<le> max_ordinal"
  shows "cleanup_body fault M =
     (let M1 = M\<lparr>clock := midnight_after (clock M)\<rparr>
      in if \<not> mon_running M1 then (M1, False)
         else
           (case delete_old_messages (midnight_after (clock M) - utc_offset M) fault
                   (retention M) (mon_storage M) of
              Inl e \<Rightarrow> cleanup_failed e M1
            | Inr (deleted_count, db) \<Rightarrow>
                (M1\<lparr>mon_storage := db,
                    mon_printed := mon_printed M @
                      [if 0 < deleted_count then LogDeleted deleted_count
                       else LogNothingToDelete]\<rparr>, True)))"
proof -
  have pos: "0 < midnight_after (clock M) - clock M"
    using midnight_after_bounds [of "clock M"] by simp
  show ?thesis
    unfolding cleanup_body_def Let_def next_midnight_from_us [OF assms]
    using pos by (simp add: sleep_def to_us_from_us split: sum.split prod.split)
qed

text \<open>
  C6, as the code has it. As long as tomorrow is a date, the worker computes the next
  midnight of the local clock strictly after now (at most a day ahead, all time fields
  zero), and sleeps until that instant whether or not a stop arrives meanwhile: it never
  comes back before the deadline. A stop that arrived during the sleep is noticed only on
  waking; the worker then leaves the loop without purging. Otherwise it purges; when the
  purge fails it prints the error and sleeps a further 3600 seconds before the loop goes
  round, and when the purge succeeds it prints the number deleted, zero included.
\<close>

theorem cleanup_worker_sleeps_until_midnight:
  assumes "0 \<le> clock M" and "clock M div day_us + 2 \<le> max_ordinal"
  shows "next_midnight (from_us (clock M)) = Inr (from_us (midnight_after (clock M))) \<and>
         from_us (midnight_after (clock M)) =
           \<lparr>ordinal = clock M div day_us + 2, hour = 0, minute = 0, second = 0,
            microsecond = 0\<rparr> \<and>
         clock M < midnight_after (clock M) \<and>
         midnight_after (clock M) \<le> clock M + day_us \<and>
         midnight_after (clock M) \<le> clock (fst (cleanup_body fault M)) \<and>
         (\<forall>s. stop_time M = Some s \<and> s \<le> midnight_after (clock M) \<longrightarrow>
              cleanup_body fault M = (M\<lparr>clock := midnight_after (clock M)\<rparr>, False)) \<and>
         (\<forall>e. mon_running (M\<lparr>clock := midnight_after (clock M)\<rparr>) \<and>
              delete_old_messages (midnight_after (clock M) - utc_offset M) fault (retention M)
                (mon_storage M) = Inl e \<longrightarrow>
              cleanup_body fault M =
                (M\<lparr>clock := midnight_after (clock M) + 3600000000,
                   mon_printed := mon_printed M @ [LogCleanupError e]\<rparr>, True)) \<and>
         (\<forall>n db. mon_running (M\<lparr>clock := midnight_after (clock M)\<rparr>) \<and>
              delete_old_messages (midnight_after (clock M) - utc_offset M) fault (retention M)
                (mon_storage M) = Inr (n, db) \<longrightarrow>
              cleanup_body fault M =
                (M\<lparr>clock := midnight_after (clock M), mon_storage := db,
                   mon_printed := mon_printed M @
                     [if 0 < n then LogDeleted n else LogNothingToDelete]\<rparr>, True))"
proof -
  note u = cleanup_body_unfold [OF assms, of fault]
  have a: "next_midnight (from_us (clock M)) = Inr (from_us (midnight_after (clock M)))"
    by (rule next_midnight_from_us [OF assms])
  have b: "from_us (midnight_after (clock M)) =
           \<lparr>ordinal = clock M div day_us + 2, hour = 0, minute = 0, second = 0,
            microsecond = 0\<rparr>"
    unfolding midnight_after_def from_us_midnight by simp
  have c: "clock M < midnight_after (clock M)" "midnight_after (clock M) \<le> clock M + day_us"
    using midnight_after_bounds [of "clock M"] by simp_all
  have d: "midnight_after (clock M) \<le> clock (fst (cleanup_body fault M))"
    unfolding u by (simp add: Let_def cleanup_failed_def sleep_def split: sum.split prod.split)
  have e: "cleanup_body fault M = (M\<lparr>clock := midnight_after (clock M)\<rparr>, False)"
    if "stop_time M = Some s \<and> s \<le> midnight_after (clock M)" for s
    unfolding u using that by (simp add: Let_def mon_running_def)
  have f: "cleanup_body fault M =
             (M\<lparr>clock := midnight_after (clock M) + 3600000000,
                mon_printed := mon_printed M @ [LogCleanupError e]\<rparr>, True)"
    if "mon_running (M\<lparr>clock := midnight_after (clock M)\<rparr>) \<and>
        delete_old_messages (midnight_after (clock M) - utc_offset M) fault (retention M)
          (mon_storage M) = Inl e" for e
    unfolding u using that by (simp add: Let_def cleanup_failed_def sleep_def)
  have g: "cleanup_body fault M =
             (M\<lparr>clock := midnight_after (clock M), mon_storage := db,
                mon_printed := mon_printed M @
                  [if 0 < n then LogDeleted n else LogNothingToDelete]\<rparr>, True)"
    if "mon_running (M\<lparr>clock := midnight_after (clock M)\<rparr>) \<and>
        delete_old_messages (midnight_after (clock M) - utc_offset M) fault (retention M)
          (mon_storage M) = Inr (n, db)" for n db
    unfolding u using that by (simp add: Let_def)
  from a b c d e f g show ?thesis by blast
qed

theorem cleanup_worker_sleeps_until_midnight_witness:
  "(0::int) \<le> 63849513601000000 \<and> 63849513601000000 div day_us + 2 \<le> max_ordinal \<and>
   midnight_after 63849513601000000 = 63849600000000000 \<and>
   cleanup_body False
     \<lparr>retention = 86400000000,
      mon_storage =
        \<lparr>rows = [\<lparr>row_id = 1, timestamp = 63849500000000000, client_ip = ''192.168.1.100'',
                   client_port = 54321, data = [0x41], data_text = Some [65], data_size = 1\<rparr>,
                 \<lparr>row_id = 2, timestamp = 63849590000000000, client_ip = ''192.168.1.101'',
                   client_port = 54322, data = [0xFF], data_text = None, data_size = 1\<rparr>],
         sqlite_sequence = 2\<rparr>,
      clock = 63849513601000000, utc_offset = 3600000000, stop_time = None,
      mon_printed = []\<rparr> =
   (\<lparr>retention = 86400000000,
     mon_storage =
        \<lparr>rows = [\<lparr>row_id = 2, timestamp = 63849590000000000, client_ip = ''192.168.1.101'',
                   client_port = 54322, data = [0xFF], data_text = None, data_size = 1\<rparr>],
         sqlite_sequence = 2\<rparr>,
     clock = 63849600000000000, utc_offset = 3600000000, stop_time = None,
     mon_printed = [LogDeleted 1]\<rparr>, True) \<and>
   cleanup_body True
     \<lparr>retention = 86400000000, mon_storage = init_db,
      clock = 63849513601000000, utc_offset = 3600000000, stop_time = None,
      mon_printed = []\<rparr> =
   (\<lparr>retention = 86400000000, mon_storage = init_db,
     clock = 63849603600000000, utc_offset = 3600000000, stop_time = None,
     mon_printed = [LogCleanupError SqliteError]\<rparr>, True)"
  using cleanup_worker_sleeps_until_midnight [of
     "\<lparr>retention = 86400000000, mon_storage = init_db,
      clock = 63849513601000000, utc_offset = 3600000000, stop_time = None,
      mon_printed = []\<rparr>" True]
    cleanup_worker_sleeps_until_midnight [of
     "\<lparr>retention = 86400000000,
      mon_storage =
        \<lparr>rows = [\<lparr>row_id = 1, timestamp = 63849500000000000, client_ip = ''192.168.1.100'',
                   client_port = 54321, data = [0x41], data_text = Some [65], data_size = 1\<rparr>,
                 \<lparr>row_id = 2, timestamp = 63849590000000000, client_ip = ''192.168.1.101'',
                   client_port = 54322, data = [0xFF], data_text = None, data_size = 1\<rparr>],
         sqlite_sequence = 2\<rparr>,
      clock = 63849513601000000, utc_offset = 3600000000, stop_time = None,
      mon_printed = []\<rparr>" False]
  by (simp add: midnight_after_def day_us_def max_ordinal_def mon_running_def
      delete_old_messages_def datetime_max_def Let_def)

text \<open>
  The property as the specification states it fails where a stop arrives during the sleep.
  One second after midnight, with the stop one second later, the worker is back at the next
  midnight, 86398 seconds after the stop, not at the stop.
\<close>

theorem cleanup_worker_counterexample:
  "mon_running
     \<lparr>retention = 86400000000, mon_storage = init_db,
      clock = 63849513601000000, utc_offset = 3600000000,
      stop_time = Some 63849513602000000, mon_printed = []\<rparr> \<and>
   cleanup_body False
     \<lparr>retention = 86400000000, mon_storage = init_db,
      clock = 63849513601000000, utc_offset = 3600000000,
      stop_time = Some 63849513602000000, mon_printed = []\<rparr> =
   (\<lparr>retention = 86400000000, mon_storage = init_db,
     clock = 63849600000000000, utc_offset = 3600000000,
     stop_time = Some 63849513602000000, mon_printed = []\<rparr>, False) \<and>
   min (midnight_after 63849513601000000) 63849513602000000 = 63849513602000000 \<and>
   (63849600000000000::int) - 63849513602000000 = 86398000000"
proof -
  let ?M = "\<lparr>retention = 86400000000, mon_storage = init_db,
      clock = 63849513601000000, utc_offset = 3600000000,
      stop_time = Some 63849513602000000, mon_printed = []\<rparr>"
  have m: "midnight_after 63849513601000000 = 63849600000000000"
    by (simp add: midnight_after_def day_us_def)
  have p: "0 \<le> clock ?M" "clock ?M div day_us + 2 \<le> max_ordinal"
    by (simp_all add: day_us_def max_ordinal_def)
  show ?thesis
    unfolding cleanup_body_unfold [OF p]
    by (simp add: m mon_running_def Let_def)
qed

end
